theory Spec2Isabelle
  imports Complex_Main
begin

unbundle bit_operations_syntax

section \<open>Python values used by the board model\<close>

text \<open>
  The only exception the modelled code can raise is Python's \<open>IndexError\<close>, from reading
  or writing a list outside its range.  Integers are Python's unbounded \<open>int\<close>.
\<close>

datatype py_error = IndexError

text \<open>
  Python list indexing: an index \<open>i\<close> with \<open>0 \<le> i < n\<close> names position \<open>i\<close>, an index
  with \<open>-n \<le> i < 0\<close> names position \<open>n + i\<close>, anything else raises \<open>IndexError\<close>.
\<close>

definition py_index :: "nat \<Rightarrow> int \<Rightarrow> nat option" where
  "py_index n i =
     (if 0 \<le> i \<and> i < int n then Some (nat i)
      else if - int n \<le> i \<and> i < 0 then Some (nat (int n + i))
      else None)"

definition py_getitem :: "'a list \<Rightarrow> int \<Rightarrow> py_error + 'a" where
  "py_getitem xs i =
     (case py_index (length xs) i of None \<Rightarrow> Inl IndexError | Some k \<Rightarrow> Inr (xs ! k))"

definition py_setitem :: "'a list \<Rightarrow> int \<Rightarrow> 'a \<Rightarrow> py_error + 'a list" where
  "py_setitem xs i v =
     (case py_index (length xs) i of None \<Rightarrow> Inl IndexError | Some k \<Rightarrow> Inr (xs[k := v]))"

text \<open>The slice \<open>xs[:k]\<close>: a negative \<open>k\<close> counts from the end, and nothing raises.\<close>

definition py_slice_to :: "'a list \<Rightarrow> int \<Rightarrow> 'a list" where
  "py_slice_to xs k = take (nat (if k < 0 then int (length xs) + k else k)) xs"

section \<open>ToguzBoard\<close>

text \<open>
  The dataclass \<open>ToguzBoard\<close> with its three fields.  \<open>ToguzBoard_default\<close> is the value
  built by \<open>ToguzBoard()\<close>: \<open>[9] * 18\<close>, \<open>(0, 0)\<close> and \<open>0\<close>.
\<close>

record ToguzBoard =
  pits :: "int list"
  kazans :: "int \<times> int"
  turn :: int

definition ToguzBoard_default :: ToguzBoard where
  "ToguzBoard_default = \<lparr>pits = replicate 18 9, kazans = (0, 0), turn = 0\<rparr>"

text \<open>
  The list comprehension \<open>[i for i in rng if self.pits[i] > 0]\<close>: the indices are visited
  in order and the first read out of range raises.
\<close>

fun legal_scan :: "int list \<Rightarrow> int list \<Rightarrow> py_error + int list" where
  "legal_scan ps [] = Inr []"
| "legal_scan ps (i # rng) =
     (case py_getitem ps i of
        Inl e \<Rightarrow> Inl e
      | Inr c \<Rightarrow>
          (case legal_scan ps rng of
             Inl e \<Rightarrow> Inl e
           | Inr r \<Rightarrow> Inr (if c > 0 then i # r else r)))"

definition generate_legal_moves :: "ToguzBoard \<Rightarrow> py_error + int list" where
  "generate_legal_moves b =
     (if turn b = 0 then legal_scan (pits b) [0..8] else legal_scan (pits b) [9..17])"

text \<open>
  \<open>copy.deepcopy\<close> of a board, read on values: a board with the same three field values.
  The heap-level reading is in the section on the object store below.
\<close>

definition board_copy :: "ToguzBoard \<Rightarrow> ToguzBoard" where
  "board_copy b = \<lparr>pits = pits b, kazans = kazans b, turn = turn b\<rparr>"

text \<open>
  \<open>apply_move\<close>: copy, flip the lowest bit of \<open>turn\<close>, store 0 in the chosen pit.  The
  store raises \<open>IndexError\<close> for an index outside the list, after which no board is returned.
\<close>

definition apply_move :: "ToguzBoard \<Rightarrow> int \<Rightarrow> py_error + ToguzBoard" where
  "apply_move b pit_index =
     (let new_board = board_copy b;
          new_board = new_board\<lparr>turn := turn new_board XOR 1\<rparr>
      in case py_setitem (pits new_board) pit_index 0 of
           Inl e \<Rightarrow> Inl e
         | Inr ps \<Rightarrow> Inr (new_board\<lparr>pits := ps\<rparr>))"

definition total_seeds :: "ToguzBoard \<Rightarrow> int" where
  "total_seeds b = sum_list (pits b) + fst (kazans b) + snd (kazans b)"

text \<open>
  A sequence of moves applied one after the other, as the game does from the starting
  board; it stops at the first move that raises.
\<close>

fun apply_moves :: "ToguzBoard \<Rightarrow> int list \<Rightarrow> py_error + ToguzBoard" where
  "apply_moves b [] = Inr b"
| "apply_moves b (m # ms) =
     (case apply_move b m of Inl e \<Rightarrow> Inl e | Inr b' \<Rightarrow> apply_moves b' ms)"

text \<open>No pit holds a negative count.\<close>

definition pits_nonneg :: "ToguzBoard \<Rightarrow> bool" where
  "pits_nonneg b = list_all (\<lambda>c. 0 \<le> c) (pits b)"

section \<open>MoveRecord and MoveHistory\<close>

record MoveRecord =
  ply :: int
  notation_text :: string
  board_snapshot :: ToguzBoard

text \<open>The class \<open>MoveHistory\<close> has the single attribute \<open>_records\<close>, empty at construction.\<close>

record MoveHistory =
  records :: "MoveRecord list"

definition MoveHistory_init :: MoveHistory where
  "MoveHistory_init = \<lparr>records = []\<rparr>"

definition add :: "MoveHistory \<Rightarrow> string \<Rightarrow> ToguzBoard \<Rightarrow> MoveHistory" where
  "add hist n board =
     hist\<lparr>records := records hist
        @ [\<lparr>ply = int (length (records hist)) + 1, notation_text = n,
            board_snapshot = board_copy board\<rparr>]\<rparr>"

text \<open>
  \<open>rewind_to\<close> has one test, \<open>ply == 0\<close>; every other \<open>ply\<close> goes to the list read
  \<open>self._records[ply - 1]\<close> with Python's indexing.
\<close>

definition rewind_to :: "MoveHistory \<Rightarrow> int \<Rightarrow> py_error + ToguzBoard" where
  "rewind_to hist p =
     (if p = 0 then Inr ToguzBoard_default
      else case py_getitem (records hist) (p - 1) of
             Inl e \<Rightarrow> Inl e
           | Inr r \<Rightarrow> Inr (board_copy (board_snapshot r)))"

definition as_table :: "MoveHistory \<Rightarrow> (int \<times> string) list" where
  "as_table hist = map (\<lambda>r. (ply r, notation_text r)) (records hist)"

text \<open>
  The trimming that the table handler of \<open>GameUI.run\<close> performs on the ledger:
  \<open>self.history._records = self.history._records[:row_idx]\<close>.
\<close>

definition truncate_to :: "MoveHistory \<Rightarrow> int \<Rightarrow> MoveHistory" where
  "truncate_to hist row_idx = hist\<lparr>records := py_slice_to (records hist) row_idx\<rparr>"

text \<open>
  A ledger built from the empty one by \<open>add\<close> and the trimming above, in any order and
  with any arguments.
\<close>

datatype history_op = Add string ToguzBoard | Truncate int

fun run_history_op :: "MoveHistory \<Rightarrow> history_op \<Rightarrow> MoveHistory" where
  "run_history_op hist (Add n board) = add hist n board"
| "run_history_op hist (Truncate k) = truncate_to hist k"

definition run_history_ops :: "history_op list \<Rightarrow> MoveHistory" where
  "run_history_ops ops = foldl run_history_op MoveHistory_init ops"

text \<open>The ply numbers of a ledger are 1, 2, 3, ... in order.\<close>

definition dense_plies :: "MoveHistory \<Rightarrow> bool" where
  "dense_plies hist =
     list_all (\<lambda>i. ply (records hist ! i) = int i + 1) [0..<length (records hist)]"

section \<open>Hit testing\<close>

text \<open>
  Python's floats are read as real numbers: the geometry is modelled exactly, without
  rounding.  The viewport size \<open>(w, h)\<close> comes from the graph widget and is a parameter.
\<close>

definition pit_r :: "real \<Rightarrow> real \<Rightarrow> real" where
  "pit_r w h = min (w / 18) (h / 4) * 0.9"

definition bottom_centre :: "real \<Rightarrow> int \<Rightarrow> real \<times> real" where
  "bottom_centre r i = ((of_int i + 0.5) * 2 * r, r * 1.5)"

definition top_centre :: "real \<Rightarrow> real \<Rightarrow> int \<Rightarrow> real \<times> real" where
  "top_centre r h i = ((8 - of_int i + 0.5) * 2 * r, h - r * 1.5)"

text \<open>The test of both loops: \<open>(x - cx) ** 2 + (y - cy) ** 2 <= pit_r ** 2\<close>.\<close>

definition in_pit :: "real \<Rightarrow> real \<times> real \<Rightarrow> real \<Rightarrow> real \<Rightarrow> bool" where
  "in_pit r c x y = ((x - fst c)\<^sup>2 + (y - snd c)\<^sup>2 \<le> r\<^sup>2)"


text \<open>One \<open>for\<close> loop of \<open>_screen_to_pit\<close>: the first index of the range that passes.\<close>

fun scan_row :: "(int \<Rightarrow> real \<times> real) \<Rightarrow> real \<Rightarrow> real \<Rightarrow> real \<Rightarrow> int list \<Rightarrow> int option" where
  "scan_row centre r x y [] = None"
| "scan_row centre r x y (i # rng) =
     (if in_pit r (centre i) x y then Some i else scan_row centre r x y rng)"

definition screen_to_pit :: "real \<Rightarrow> real \<Rightarrow> real \<Rightarrow> real \<Rightarrow> int option" where
  "screen_to_pit w h x y =
     (let r = pit_r w h in
      case scan_row (bottom_centre r) r x y [0..8] of
        Some i \<Rightarrow> Some i
      | None \<Rightarrow>
          (case scan_row (top_centre r h) r x y [0..8] of
             Some i \<Rightarrow> Some (9 + i)
           | None \<Rightarrow> None))"

text \<open>
  Where \<open>_draw_board\<close> draws pit \<open>idx\<close>: the bottom loop draws pit \<open>i\<close>, the top loop draws
  pit \<open>9 + i\<close>, with the same centre expressions as the hit test.
\<close>

definition pit_centre :: "real \<Rightarrow> real \<Rightarrow> int \<Rightarrow> real \<times> real" where
  "pit_centre w h idx =
     (let r = pit_r w h in
      if idx < 9 then bottom_centre r idx else top_centre r h (idx - 9))"

section \<open>GameUI: the state the event handlers change\<close>

text \<open>
  Of \<open>GameUI\<close> only \<open>board_model\<close> and \<open>history\<close> are modelled; drawing, the table widget
  and popups are output only.  A handler returns the state it leaves behind together with
  the exception that ended it, if one did.
\<close>

record GameUI =
  board_model :: ToguzBoard
  history :: MoveHistory

definition GameUI_init :: GameUI where
  "GameUI_init = \<lparr>board_model = ToguzBoard_default, history = MoveHistory_init\<rparr>"

text \<open>\<open>str\<close> of an integer, for the move notation.\<close>

fun digits_of :: "nat \<Rightarrow> string" where
  "digits_of n =
     (if n < 10 then [''0123456789'' ! n]
      else digits_of (n div 10) @ [''0123456789'' ! (n mod 10)])"

definition py_str :: "int \<Rightarrow> string" where
  "py_str i = (if i < 0 then CHR ''-'' # digits_of (nat (- i)) else digits_of (nat i))"

definition push_history :: "GameUI \<Rightarrow> string \<Rightarrow> GameUI" where
  "push_history ui move_notation = ui\<lparr>history := add (history ui) move_notation (board_model ui)\<rparr>"

function ui_apply_move :: "GameUI \<Rightarrow> int \<Rightarrow> bool \<Rightarrow> GameUI \<times> py_error option"
  and engine_move :: "GameUI \<Rightarrow> GameUI \<times> py_error option" where
  "ui_apply_move ui pit_index by_engine =
     (let move_str = (if by_engine then ''AI'' else ''P'') @ '':'' @ py_str (pit_index + 1) in
      case apply_move (board_model ui) pit_index of
        Inl e \<Rightarrow> (ui, Some e)
      | Inr b \<Rightarrow>
          (let ui' = push_history (ui\<lparr>board_model := b\<rparr>) move_str in
           if \<not> by_engine then engine_move ui' else (ui', None)))"
| "engine_move ui =
     (case generate_legal_moves (board_model ui) of
        Inl e \<Rightarrow> (ui, Some e)
      | Inr legal \<Rightarrow>
          (case legal of
             [] \<Rightarrow> (ui, None)
           | chosen # _ \<Rightarrow> ui_apply_move ui chosen True))"
  by pat_completeness auto
termination
  by (relation "measure (\<lambda>a. case a of Inl (_, _, by_engine) \<Rightarrow> if by_engine then 0 else 2
                                      | Inr _ \<Rightarrow> Suc 0)") auto

declare ui_apply_move.simps [simp del] engine_move.simps [simp del]

text \<open>The two handlers of the loop in \<open>GameUI.run\<close>, for a click at \<open>(x, y)\<close> on a board
  of size \<open>(w, h)\<close> and for a selected table row.\<close>

definition on_board_click :: "real \<Rightarrow> real \<Rightarrow> GameUI \<Rightarrow> real \<Rightarrow> real \<Rightarrow> GameUI \<times> py_error option" where
  "on_board_click w h ui x y =
     (case screen_to_pit w h x y of
        None \<Rightarrow> (ui, None)
      | Some pit \<Rightarrow>
          (case generate_legal_moves (board_model ui) of
             Inl e \<Rightarrow> (ui, Some e)
           | Inr legal \<Rightarrow>
               if pit \<in> set legal then ui_apply_move ui pit False else (ui, None)))"

definition on_table_click :: "GameUI \<Rightarrow> int \<Rightarrow> GameUI \<times> py_error option" where
  "on_table_click ui row_idx =
     (case rewind_to (history ui) row_idx of
        Inl e \<Rightarrow> (ui, Some e)
      | Inr b \<Rightarrow>
          (ui\<lparr>board_model := b, history := truncate_to (history ui) row_idx\<rparr>, None))"

section \<open>The object store under \<open>apply_move\<close>\<close>

text \<open>
  \<open>apply_move\<close> once more, now on objects: a board object refers to its list of pits by
  address, \<open>kazans\<close> is an immutable tuple and \<open>turn\<close> an integer, both held by value.
  The store is two growing tables, an address is a position in its table, and allocation
  appends.  A result of \<open>None\<close> says that \<open>self\<close> names no board of the store; no Python
  state is like that.
\<close>

type_synonym addr = nat

record board_obj =
  pits_ref :: addr
  kazans_val :: "int \<times> int"
  turn_val :: int

record heap =
  list_objs :: "int list list"
  board_objs :: "board_obj list"

definition lookup :: "'a list \<Rightarrow> addr \<Rightarrow> 'a option" where
  "lookup xs a = (if a < length xs then Some (xs ! a) else None)"

text \<open>The board value that a board object stands for.\<close>

definition board_at :: "heap \<Rightarrow> addr \<Rightarrow> ToguzBoard option" where
  "board_at hp a =
     (case lookup (board_objs hp) a of
        None \<Rightarrow> None
      | Some bo \<Rightarrow>
          (case lookup (list_objs hp) (pits_ref bo) of
             None \<Rightarrow> None
           | Some ps \<Rightarrow> Some \<lparr>pits = ps, kazans = kazans_val bo, turn = turn_val bo\<rparr>))"

text \<open>
  \<open>copy.deepcopy(self)\<close>: a new list object with the same counts and a new board object
  that refers to it; the integers and the tuple are immutable and carried over.
\<close>

definition deepcopy :: "heap \<Rightarrow> addr \<Rightarrow> (heap \<times> addr) option" where
  "deepcopy hp a =
     (case lookup (board_objs hp) a of
        None \<Rightarrow> None
      | Some bo \<Rightarrow>
          (case lookup (list_objs hp) (pits_ref bo) of
             None \<Rightarrow> None
           | Some ps \<Rightarrow>
               Some (hp\<lparr>list_objs := list_objs hp @ [ps],
                        board_objs := board_objs hp @ [bo\<lparr>pits_ref := length (list_objs hp)\<rparr>]\<rparr>,
                     length (board_objs hp))))"

definition heap_apply_move :: "heap \<Rightarrow> addr \<Rightarrow> int \<Rightarrow> (heap \<times> (py_error + addr)) option" where
  "heap_apply_move hp self pit_index =
     (case deepcopy hp self of
        None \<Rightarrow> None
      | Some (hp1, new_board) \<Rightarrow>
          (let bo = board_objs hp1 ! new_board;
               hp2 = hp1\<lparr>board_objs :=
                            (board_objs hp1)[new_board := bo\<lparr>turn_val := turn_val bo XOR 1\<rparr>]\<rparr>;
               ps = list_objs hp2 ! pits_ref bo
           in case py_setitem ps pit_index 0 of
                Inl e \<Rightarrow> Some (hp2, Inl e)
              | Inr ps' \<Rightarrow>
                  Some (hp2\<lparr>list_objs := (list_objs hp2)[pits_ref bo := ps']\<rparr>, Inr new_board)))"

text \<open>What the caller of \<open>apply_move\<close> gets: the exception, or the board value returned.\<close>

definition heap_result :: "(heap \<times> (py_error + addr)) option \<Rightarrow> (py_error + ToguzBoard) option" where
  "heap_result r =
     (case r of
        None \<Rightarrow> None
      | Some (hp, Inl e) \<Rightarrow> Some (Inl e)
      | Some (hp, Inr a) \<Rightarrow> map_option Inr (board_at hp a))"

section \<open>Legal moves of the starting position\<close>

lemma board_copy_id: "board_copy b = b"
  by (simp add: board_copy_def)

text \<open>
  C9: on the board built by \<open>ToguzBoard()\<close> (side 0 to move) \<open>generate_legal_moves\<close>
  returns the indices 0..8 whose pit is nonzero, and these are all nine indices 0..8.
\<close>

theorem legal_moves_initial:
  "generate_legal_moves ToguzBoard_default = Inr [0, 1, 2, 3, 4, 5, 6, 7, 8]
   \<and> generate_legal_moves ToguzBoard_default
       = Inr (filter (\<lambda>i. pits ToguzBoard_default ! nat i \<noteq> 0) [0..8])
   \<and> turn ToguzBoard_default = 0"
  by (simp add: generate_legal_moves_def ToguzBoard_default_def py_getitem_def py_index_def
      upto_rec1 numeral_eq_Suc)

section \<open>What a move does to a board, and to the number of seeds\<close>

lemma py_index_less: "py_index n i = Some k \<Longrightarrow> k < n"
  by (auto simp: py_index_def split: if_splits)

lemma apply_move_Inr:
  "apply_move b i = Inr b' \<longleftrightarrow>
     (\<exists>k. py_index (length (pits b)) i = Some k
        \<and> b' = \<lparr>pits = (pits b)[k := 0], kazans = kazans b, turn = turn b XOR 1\<rparr>)"
  by (auto simp: apply_move_def py_setitem_def board_copy_def Let_def split: option.splits)

lemma apply_move_Inl:
  "apply_move b i = Inl e \<longleftrightarrow> py_index (length (pits b)) i = None"
  by (cases e) (auto simp: apply_move_def py_setitem_def board_copy_def Let_def
      split: option.splits)

lemma sum_list_clear:
  "k < length xs \<Longrightarrow> sum_list (xs[k := 0]) = sum_list xs - (xs ! k :: int)"
proof (induction xs arbitrary: k)
  case Nil
  then show ?case by simp
next
  case (Cons x xs)
  then show ?case by (cases k) simp_all
qed

lemma apply_move_total:
  assumes "apply_move b i = Inr b'"
  shows "py_getitem (pits b) i = Inr (total_seeds b - total_seeds b')"
proof -
  from assms obtain k where k: "py_index (length (pits b)) i = Some k"
    and b': "b' = \<lparr>pits = (pits b)[k := 0], kazans = kazans b, turn = turn b XOR 1\<rparr>"
    unfolding apply_move_Inr by blast
  have "k < length (pits b)" using k by (rule py_index_less)
  then have "total_seeds b - total_seeds b' = pits b ! k"
    by (simp add: b' total_seeds_def sum_list_clear)
  then show ?thesis by (simp add: py_getitem_def k)
qed

lemma pits_nonneg_default: "pits_nonneg ToguzBoard_default"
  by (simp add: pits_nonneg_def ToguzBoard_default_def list_all_iff)

lemma apply_move_nonneg:
  assumes "apply_move b i = Inr b'" and "pits_nonneg b"
  shows "pits_nonneg b'"
proof -
  from assms(1) obtain k where
    b': "b' = \<lparr>pits = (pits b)[k := 0], kazans = kazans b, turn = turn b XOR 1\<rparr>"
    unfolding apply_move_Inr by blast
  have "set ((pits b)[k := 0]) \<subseteq> insert 0 (set (pits b))"
    by (rule set_update_subset_insert)
  with assms(2) show ?thesis
    by (auto simp: b' pits_nonneg_def list_all_iff)
qed

lemma apply_move_total_le:
  assumes "apply_move b i = Inr b'" and "pits_nonneg b"
  shows "total_seeds b' \<le> total_seeds b"
proof -
  from assms(1) obtain k where k: "py_index (length (pits b)) i = Some k"
    unfolding apply_move_Inr by blast
  then have "k < length (pits b)" by (rule py_index_less)
  with assms(2) have "0 \<le> pits b ! k"
    by (simp add: pits_nonneg_def list_all_length)
  moreover have "py_getitem (pits b) i = Inr (pits b ! k)"
    by (simp add: py_getitem_def k)
  ultimately show ?thesis using apply_move_total [OF assms(1)] by simp
qed

lemma apply_moves_invariant:
  "apply_moves b ms = Inr s \<Longrightarrow> pits_nonneg b
     \<Longrightarrow> pits_nonneg s \<and> total_seeds s \<le> total_seeds b"
proof (induction ms arbitrary: b)
  case Nil
  then show ?case by simp
next
  case (Cons m ms)
  from Cons.prems(1) obtain b' where m: "apply_move b m = Inr b'"
    and rest: "apply_moves b' ms = Inr s"
    by (auto split: sum.splits)
  have nn: "pits_nonneg b'" using m Cons.prems(2) by (rule apply_move_nonneg)
  have "total_seeds b' \<le> total_seeds b" using m Cons.prems(2) by (rule apply_move_total_le)
  with Cons.IH [OF rest nn] show ?case by simp
qed

lemma total_seeds_default: "total_seeds ToguzBoard_default = 162"
  by (simp add: total_seeds_def ToguzBoard_default_def numeral_eq_Suc)

text \<open>
  C1 as stated fails: one move from the starting board already loses the nine seeds of the
  cleared pit (162 before, 153 after).
\<close>

theorem seeds_not_conserved:
  "apply_moves ToguzBoard_default [0]
     = Inr \<lparr>pits = [0, 9, 9, 9, 9, 9, 9, 9, 9, 9, 9, 9, 9, 9, 9, 9, 9, 9],
            kazans = (0, 0), turn = 1\<rparr>
   \<and> apply_move ToguzBoard_default 0
     = Inr \<lparr>pits = [0, 9, 9, 9, 9, 9, 9, 9, 9, 9, 9, 9, 9, 9, 9, 9, 9, 9],
            kazans = (0, 0), turn = 1\<rparr>
   \<and> total_seeds \<lparr>pits = [0, 9, 9, 9, 9, 9, 9, 9, 9, 9, 9, 9, 9, 9, 9, 9, 9, 9],
            kazans = (0, 0), turn = 1\<rparr> = 153
   \<and> total_seeds ToguzBoard_default = 162"
  by (simp add: apply_move_def board_copy_def py_setitem_def py_index_def
      ToguzBoard_default_def total_seeds_def numeral_eq_Suc)

text \<open>
  C1, amended: in every board reached from the starting board by a sequence of applied
  moves the total \<open>sum(pits) + kazans[0] + kazans[1]\<close> is at most the starting total 162,
  and a further \<open>apply_move\<close> lowers the total by exactly the count of the pit it clears.
\<close>

theorem seeds_after_moves:
  "apply_moves ToguzBoard_default ms = Inr s \<Longrightarrow>
     total_seeds s \<le> total_seeds ToguzBoard_default
     \<and> total_seeds ToguzBoard_default = 162
     \<and> (\<forall>i s'. apply_move s i = Inr s' \<longrightarrow>
           py_getitem (pits s) i = Inr (total_seeds s - total_seeds s')
           \<and> total_seeds s' \<le> total_seeds s)"
proof -
  assume run: "apply_moves ToguzBoard_default ms = Inr s"
  from apply_moves_invariant [OF run pits_nonneg_default]
  have nn: "pits_nonneg s" and le: "total_seeds s \<le> total_seeds ToguzBoard_default"
    by simp_all
  have "py_getitem (pits s) i = Inr (total_seeds s - total_seeds s')
        \<and> total_seeds s' \<le> total_seeds s" if "apply_move s i = Inr s'" for i s'
    using apply_move_total [OF that] apply_move_total_le [OF that nn] by simp
  with le show ?thesis by (simp add: total_seeds_default)
qed

theorem seeds_after_moves_witness:
  "apply_moves ToguzBoard_default [0, -1]
     = Inr \<lparr>pits = [0, 9, 9, 9, 9, 9, 9, 9, 9, 9, 9, 9, 9, 9, 9, 9, 9, 0],
            kazans = (0, 0), turn = 0\<rparr>
   \<and> apply_move \<lparr>pits = [0, 9, 9, 9, 9, 9, 9, 9, 9, 9, 9, 9, 9, 9, 9, 9, 9, 0],
            kazans = (0, 0), turn = 0\<rparr> 3
     = Inr \<lparr>pits = [0, 9, 9, 0, 9, 9, 9, 9, 9, 9, 9, 9, 9, 9, 9, 9, 9, 0],
            kazans = (0, 0), turn = 1\<rparr>
   \<and> total_seeds \<lparr>pits = [0, 9, 9, 9, 9, 9, 9, 9, 9, 9, 9, 9, 9, 9, 9, 9, 9, 0],
            kazans = (0, 0), turn = 0\<rparr> \<le> total_seeds ToguzBoard_default
   \<and> py_getitem [0, 9, 9, 9, 9, 9, 9, 9, 9, 9, 9, 9, 9, 9, 9, 9, 9, 0] 3
     = Inr (total_seeds \<lparr>pits = [0, 9, 9, 9, 9, 9, 9, 9, 9, 9, 9, 9, 9, 9, 9, 9, 9, 0],
            kazans = (0, 0), turn = 0\<rparr>
          - total_seeds \<lparr>pits = [0, 9, 9, 0, 9, 9, 9, 9, 9, 9, 9, 9, 9, 9, 9, 9, 9, 0],
            kazans = (0, 0), turn = 1\<rparr>)"
proof -
  let ?s = "\<lparr>pits = [0, 9, 9, 9, 9, 9, 9, 9, 9, 9, 9, 9, 9, 9, 9, 9, 9, 0 :: int],
            kazans = (0 :: int, 0 :: int), turn = 0 :: int\<rparr>"
  let ?s' = "\<lparr>pits = [0, 9, 9, 0, 9, 9, 9, 9, 9, 9, 9, 9, 9, 9, 9, 9, 9, 0 :: int],
            kazans = (0 :: int, 0 :: int), turn = 1 :: int\<rparr>"
  have run: "apply_moves ToguzBoard_default [0, -1] = Inr ?s"
    by (simp add: apply_move_def board_copy_def py_setitem_def py_index_def
        ToguzBoard_default_def numeral_eq_Suc)
  have mv: "apply_move ?s 3 = Inr ?s'"
    by (simp add: apply_move_def board_copy_def py_setitem_def py_index_def numeral_eq_Suc)
  from seeds_after_moves [OF run] mv show ?thesis
    using run by simp
qed

section \<open>Rewinding\<close>

lemma py_getitem_in_range:
  "0 \<le> i \<Longrightarrow> i < int (length xs) \<Longrightarrow> py_getitem xs i = Inr (xs ! nat i)"
  by (simp add: py_getitem_def py_index_def)

lemma py_getitem_out_of_range:
  "int (length xs) \<le> i \<or> i < - int (length xs) \<Longrightarrow> py_getitem xs i = Inl IndexError"
  by (auto simp: py_getitem_def py_index_def)

text \<open>
  C3: \<open>rewind_to(0)\<close> returns the board built by \<open>ToguzBoard()\<close>, whose pits all hold 9,
  whose kazans are both 0 and whose turn is 0, whatever the ledger holds; and for
  \<open>1 \<le> ply \<le> len\<close> it returns a board equal to the snapshot of record \<open>ply - 1\<close>.
\<close>

theorem rewind_to_returns:
  "rewind_to hist 0 = Inr \<lparr>pits = replicate 18 9, kazans = (0, 0), turn = 0\<rparr>
   \<and> (1 \<le> p \<longrightarrow> p \<le> int (length (records hist)) \<longrightarrow>
        rewind_to hist p = Inr (board_snapshot (records hist ! nat (p - 1))))"
  by (simp add: rewind_to_def ToguzBoard_default_def py_getitem_in_range board_copy_id)

theorem rewind_to_returns_witness:
  "(1 :: int) \<le> 2
   \<and> rewind_to \<lparr>records =
        [\<lparr>ply = 1, notation_text = ''P:1'', board_snapshot =
            \<lparr>pits = [0, 9, 9, 9, 9, 9, 9, 9, 9, 9, 9, 9, 9, 9, 9, 9, 9, 9], kazans = (0, 0), turn = 1\<rparr>\<rparr>,
         \<lparr>ply = 2, notation_text = ''AI:10'', board_snapshot =
            \<lparr>pits = [0, 9, 9, 9, 9, 9, 9, 9, 9, 0, 9, 9, 9, 9, 9, 9, 9, 9], kazans = (0, 0), turn = 0\<rparr>\<rparr>]\<rparr> 2
     = Inr \<lparr>pits = [0, 9, 9, 9, 9, 9, 9, 9, 9, 0, 9, 9, 9, 9, 9, 9, 9, 9], kazans = (0, 0), turn = 0\<rparr>"
  using rewind_to_returns [of "\<lparr>records =
        [\<lparr>ply = 1, notation_text = ''P:1'', board_snapshot =
            \<lparr>pits = [0, 9, 9, 9, 9, 9, 9, 9, 9, 9, 9, 9, 9, 9, 9, 9, 9, 9], kazans = (0, 0), turn = 1\<rparr>\<rparr>,
         \<lparr>ply = 2, notation_text = ''AI:10'', board_snapshot =
            \<lparr>pits = [0, 9, 9, 9, 9, 9, 9, 9, 9, 0, 9, 9, 9, 9, 9, 9, 9, 9], kazans = (0, 0), turn = 0\<rparr>\<rparr>]\<rparr>" 2]
  by simp

text \<open>
  C4 as stated fails for a negative ply: with two records, \<open>rewind_to(-1)\<close> reads
  \<open>_records[-2]\<close>, which is the first record, and returns its board.
\<close>

theorem rewind_to_negative_returns:
  "rewind_to \<lparr>records =
        [\<lparr>ply = 1, notation_text = ''P:1'', board_snapshot =
            \<lparr>pits = [0, 9, 9, 9, 9, 9, 9, 9, 9, 9, 9, 9, 9, 9, 9, 9, 9, 9], kazans = (0, 0), turn = 1\<rparr>\<rparr>,
         \<lparr>ply = 2, notation_text = ''AI:10'', board_snapshot =
            \<lparr>pits = [0, 9, 9, 9, 9, 9, 9, 9, 9, 0, 9, 9, 9, 9, 9, 9, 9, 9], kazans = (0, 0), turn = 0\<rparr>\<rparr>]\<rparr> (- 1)
     = Inr \<lparr>pits = [0, 9, 9, 9, 9, 9, 9, 9, 9, 9, 9, 9, 9, 9, 9, 9, 9, 9], kazans = (0, 0), turn = 1\<rparr>"
  by (simp add: rewind_to_def py_getitem_def py_index_def board_copy_def)

text \<open>
  C4, amended: for a ledger of length \<open>n\<close>, \<open>rewind_to(ply)\<close> raises \<open>IndexError\<close> for every
  \<open>ply > n\<close> and for every negative \<open>ply < 1 - n\<close>; the table handler then leaves the board
  and the ledger as they were.
\<close>

theorem rewind_to_out_of_range:
  "int (length (records (history ui))) < p
     \<or> p < min 0 (1 - int (length (records (history ui))))
   \<Longrightarrow> rewind_to (history ui) p = Inl IndexError
       \<and> on_table_click ui p = (ui, Some IndexError)"
proof -
  assume range: "int (length (records (history ui))) < p
     \<or> p < min 0 (1 - int (length (records (history ui))))"
  then have "p \<noteq> 0" by auto
  moreover from range have "py_getitem (records (history ui)) (p - 1) = Inl IndexError"
    by (intro py_getitem_out_of_range) auto
  ultimately have "rewind_to (history ui) p = Inl IndexError"
    by (simp add: rewind_to_def)
  then show ?thesis by (simp add: on_table_click_def)
qed

theorem rewind_to_out_of_range_witness:
  "rewind_to \<lparr>records =
        [\<lparr>ply = 1, notation_text = ''P:1'', board_snapshot =
            \<lparr>pits = [0, 9, 9, 9, 9, 9, 9, 9, 9, 9, 9, 9, 9, 9, 9, 9, 9, 9], kazans = (0, 0), turn = 1\<rparr>\<rparr>,
         \<lparr>ply = 2, notation_text = ''AI:10'', board_snapshot =
            \<lparr>pits = [0, 9, 9, 9, 9, 9, 9, 9, 9, 0, 9, 9, 9, 9, 9, 9, 9, 9], kazans = (0, 0), turn = 0\<rparr>\<rparr>]\<rparr> 3 = Inl IndexError
   \<and> on_table_click \<lparr>board_model = \<lparr>pits = [0, 9, 9, 9, 9, 9, 9, 9, 9, 0, 9, 9, 9, 9, 9, 9, 9, 9], kazans = (0, 0), turn = 0\<rparr>, history = \<lparr>records =
        [\<lparr>ply = 1, notation_text = ''P:1'', board_snapshot =
            \<lparr>pits = [0, 9, 9, 9, 9, 9, 9, 9, 9, 9, 9, 9, 9, 9, 9, 9, 9, 9], kazans = (0, 0), turn = 1\<rparr>\<rparr>,
         \<lparr>ply = 2, notation_text = ''AI:10'', board_snapshot =
            \<lparr>pits = [0, 9, 9, 9, 9, 9, 9, 9, 9, 0, 9, 9, 9, 9, 9, 9, 9, 9], kazans = (0, 0), turn = 0\<rparr>\<rparr>]\<rparr>\<rparr> 3
     = (\<lparr>board_model = \<lparr>pits = [0, 9, 9, 9, 9, 9, 9, 9, 9, 0, 9, 9, 9, 9, 9, 9, 9, 9], kazans = (0, 0), turn = 0\<rparr>, history = \<lparr>records =
        [\<lparr>ply = 1, notation_text = ''P:1'', board_snapshot =
            \<lparr>pits = [0, 9, 9, 9, 9, 9, 9, 9, 9, 9, 9, 9, 9, 9, 9, 9, 9, 9], kazans = (0, 0), turn = 1\<rparr>\<rparr>,
         \<lparr>ply = 2, notation_text = ''AI:10'', board_snapshot =
            \<lparr>pits = [0, 9, 9, 9, 9, 9, 9, 9, 9, 0, 9, 9, 9, 9, 9, 9, 9, 9], kazans = (0, 0), turn = 0\<rparr>\<rparr>]\<rparr>\<rparr>, Some IndexError)"
  using rewind_to_out_of_range [of "\<lparr>board_model = \<lparr>pits = [0, 9, 9, 9, 9, 9, 9, 9, 9, 0, 9, 9, 9, 9, 9, 9, 9, 9], kazans = (0, 0), turn = 0\<rparr>, history = \<lparr>records =
        [\<lparr>ply = 1, notation_text = ''P:1'', board_snapshot =
            \<lparr>pits = [0, 9, 9, 9, 9, 9, 9, 9, 9, 9, 9, 9, 9, 9, 9, 9, 9, 9], kazans = (0, 0), turn = 1\<rparr>\<rparr>,
         \<lparr>ply = 2, notation_text = ''AI:10'', board_snapshot =
            \<lparr>pits = [0, 9, 9, 9, 9, 9, 9, 9, 9, 0, 9, 9, 9, 9, 9, 9, 9, 9], kazans = (0, 0), turn = 0\<rparr>\<rparr>]\<rparr>\<rparr>" 3]
  by simp

section \<open>Ply numbers\<close>

lemma dense_plies_nth:
  "dense_plies hist \<longleftrightarrow> (\<forall>i < length (records hist). ply (records hist ! i) = int i + 1)"
  by (auto simp: dense_plies_def list_all_iff)

lemma dense_plies_init: "dense_plies MoveHistory_init"
  by (simp add: dense_plies_def MoveHistory_init_def)

lemma dense_plies_add: "dense_plies hist \<Longrightarrow> dense_plies (add hist n b)"
  by (auto simp: dense_plies_nth add_def nth_append less_Suc_eq)

lemma dense_plies_truncate_to: "dense_plies hist \<Longrightarrow> dense_plies (truncate_to hist k)"
  by (simp add: dense_plies_nth truncate_to_def py_slice_to_def)

lemma dense_plies_foldl:
  "dense_plies hist \<Longrightarrow> dense_plies (foldl run_history_op hist ops)"
proof (induction ops arbitrary: hist)
  case Nil
  then show ?case by simp
next
  case (Cons a ops)
  have "dense_plies (run_history_op hist a)"
    using Cons.prems by (cases a) (simp_all add: dense_plies_add dense_plies_truncate_to)
  then show ?case by (simp add: Cons.IH)
qed

lemma add_after_truncate:
  assumes "length (records hist) = 5"
  shows "records (add (truncate_to hist 2) n b)
           = take 2 (records hist) @ [\<lparr>ply = 3, notation_text = n, board_snapshot = b\<rparr>]"
  using assms by (simp add: add_def truncate_to_def py_slice_to_def board_copy_id)

text \<open>
  C5: in every ledger built from the empty one by \<open>add\<close> and by the trimming of the
  table handler, record \<open>i\<close> carries ply \<open>i + 1\<close>; and when a ledger of five records
  is trimmed to 2, two records remain and the next \<open>add\<close> appends a record with ply 3.
\<close>

theorem plies_dense:
  "(\<forall>i < length (records (run_history_ops ops)).
      ply (records (run_history_ops ops) ! i) = int i + 1)
   \<and> (length (records (run_history_ops ops)) = 5 \<longrightarrow>
        length (records (truncate_to (run_history_ops ops) 2)) = 2
        \<and> records (add (truncate_to (run_history_ops ops) 2) n b)
            = take 2 (records (run_history_ops ops))
              @ [\<lparr>ply = 3, notation_text = n, board_snapshot = b\<rparr>])"
proof -
  have "dense_plies (run_history_ops ops)"
    unfolding run_history_ops_def by (rule dense_plies_foldl [OF dense_plies_init])
  then have "\<forall>i < length (records (run_history_ops ops)).
      ply (records (run_history_ops ops) ! i) = int i + 1"
    by (simp add: dense_plies_nth)
  moreover have "length (records (truncate_to (run_history_ops ops) 2)) = 2"
    if "length (records (run_history_ops ops)) = 5"
    using that by (simp add: truncate_to_def py_slice_to_def)
  ultimately show ?thesis using add_after_truncate by blast
qed


theorem plies_dense_witness:
  "length (records (run_history_ops
      [Add ''P:1'' ToguzBoard_default, Add ''AI:10'' ToguzBoard_default,
       Add ''P:2'' ToguzBoard_default, Truncate 1,
       Add ''P:2'' ToguzBoard_default, Add ''AI:10'' ToguzBoard_default,
       Add ''P:3'' ToguzBoard_default, Add ''AI:11'' ToguzBoard_default])) = 5
   \<and> ply (records (run_history_ops
      [Add ''P:1'' ToguzBoard_default, Add ''AI:10'' ToguzBoard_default,
       Add ''P:2'' ToguzBoard_default, Truncate 1,
       Add ''P:2'' ToguzBoard_default, Add ''AI:10'' ToguzBoard_default,
       Add ''P:3'' ToguzBoard_default, Add ''AI:11'' ToguzBoard_default]) ! 4) = 5
   \<and> ply (last (records (add (truncate_to (run_history_ops
      [Add ''P:1'' ToguzBoard_default, Add ''AI:10'' ToguzBoard_default,
       Add ''P:2'' ToguzBoard_default, Truncate 1,
       Add ''P:2'' ToguzBoard_default, Add ''AI:10'' ToguzBoard_default,
       Add ''P:3'' ToguzBoard_default, Add ''AI:11'' ToguzBoard_default]) 2) ''P:2'' ToguzBoard_default))) = 3"
proof -
  let ?ops = "[Add ''P:1'' ToguzBoard_default, Add ''AI:10'' ToguzBoard_default,
       Add ''P:2'' ToguzBoard_default, Truncate 1,
       Add ''P:2'' ToguzBoard_default, Add ''AI:10'' ToguzBoard_default,
       Add ''P:3'' ToguzBoard_default, Add ''AI:11'' ToguzBoard_default]"
  have len: "length (records (run_history_ops ?ops)) = 5"
    by (simp add: run_history_ops_def add_def truncate_to_def py_slice_to_def
        MoveHistory_init_def)
  from plies_dense [of ?ops "''P:2''" ToguzBoard_default] len
  show ?thesis by simp
qed

section \<open>Clicks on pits that are not legal moves\<close>

text \<open>
  C2 as stated fails: \<open>apply_move\<close> has no legality test.  On the starting board pit 9 is
  not among the legal moves, and \<open>apply_move(9)\<close> returns a board.
\<close>

theorem apply_move_accepts_illegal:
  "generate_legal_moves ToguzBoard_default = Inr [0, 1, 2, 3, 4, 5, 6, 7, 8]
   \<and> (9 :: int) \<notin> set [0, 1, 2, 3, 4, 5, 6, 7, 8]
   \<and> apply_move ToguzBoard_default 9
     = Inr \<lparr>pits = [9, 9, 9, 9, 9, 9, 9, 9, 9, 0, 9, 9, 9, 9, 9, 9, 9, 9],
            kazans = (0, 0), turn = 1\<rparr>"
  by (simp add: generate_legal_moves_def ToguzBoard_default_def py_getitem_def py_index_def
      upto_rec1 numeral_eq_Suc apply_move_def board_copy_def py_setitem_def)

text \<open>
  C2, amended: \<open>apply_move\<close> raises only for an index outside the pit list, never for an
  illegal move; the legality test is the guard of the board-click handler in \<open>GameUI.run\<close>.
  A click that hits a pit outside \<open>generate_legal_moves\<close> raises nothing and leaves the
  board and the history as they were.
\<close>

theorem illegal_click_ignored:
  "screen_to_pit w h x y = Some m \<Longrightarrow>
   generate_legal_moves (board_model ui) = Inr legal \<Longrightarrow>
   m \<notin> set legal \<Longrightarrow>
     on_board_click w h ui x y = (ui, None)
     \<and> (apply_move (board_model ui) m = Inl IndexError
          \<longleftrightarrow> py_index (length (pits (board_model ui))) m = None)"
  by (simp add: on_board_click_def apply_move_Inl)

theorem illegal_click_ignored_witness:
  "screen_to_pit 720 400 612 346 = Some 9
   \<and> generate_legal_moves (board_model GameUI_init) = Inr [0, 1, 2, 3, 4, 5, 6, 7, 8]
   \<and> (9 :: int) \<notin> set [0, 1, 2, 3, 4, 5, 6, 7, 8]
   \<and> on_board_click 720 400 GameUI_init 612 346 = (GameUI_init, None)
   \<and> apply_move (board_model GameUI_init) 9 \<noteq> Inl IndexError"
proof -
  have hit: "screen_to_pit 720 400 612 346 = Some 9"
    by (simp add: screen_to_pit_def pit_r_def in_pit_def bottom_centre_def top_centre_def
        upto_rec1)
  have legal: "generate_legal_moves (board_model GameUI_init)
                 = Inr [0, 1, 2, 3, 4, 5, 6, 7, 8]"
    by (simp add: GameUI_init_def generate_legal_moves_def ToguzBoard_default_def
        py_getitem_def py_index_def upto_rec1 numeral_eq_Suc)
  have notin: "(9 :: int) \<notin> set [0, 1, 2, 3, 4, 5, 6, 7, 8]"
    by simp
  have idx: "py_index (length (pits (board_model GameUI_init))) 9 \<noteq> None"
    by (simp add: GameUI_init_def ToguzBoard_default_def py_index_def)
  from illegal_click_ignored [OF hit legal notin] idx hit legal
  show ?thesis by simp
qed

section \<open>\<open>apply_move\<close> on the object store\<close>

lemma xor_one_neq: "(t :: int) XOR 1 \<noteq> t"
proof
  assume "t XOR 1 = t"
  then have "(t XOR 1) XOR t = t XOR t" by simp
  then show False by (simp add: xor.commute xor.left_commute)
qed

lemma heap_apply_move_Some:
  assumes "board_at hp self = Some s"
  shows "\<exists>hp' r. heap_apply_move hp self i = Some (hp', r)
           \<and> heap_result (Some (hp', r)) = Some (apply_move s i)
           \<and> take (length (board_objs hp)) (board_objs hp') = board_objs hp
           \<and> take (length (list_objs hp)) (list_objs hp') = list_objs hp
           \<and> (\<forall>a. r = Inr a \<longrightarrow> a = length (board_objs hp))"
proof -
  from assms obtain bo where bo: "lookup (board_objs hp) self = Some bo"
    and ps: "lookup (list_objs hp) (pits_ref bo) = Some (pits s)"
    and s: "s = \<lparr>pits = pits s, kazans = kazans_val bo, turn = turn_val bo\<rparr>"
    by (auto simp: board_at_def split: option.splits)
  show ?thesis
  proof (cases "py_index (length (pits s)) i")
    case None
    then show ?thesis using bo ps s
      by (simp add: heap_apply_move_def deepcopy_def Let_def py_setitem_def heap_result_def
          apply_move_def board_copy_def nth_append)
  next
    case (Some k)
    then show ?thesis using bo ps s
      apply (simp add: heap_apply_move_def deepcopy_def Let_def py_setitem_def heap_result_def
          apply_move_def board_copy_def nth_append board_at_def lookup_def)
      apply (metis ToguzBoard.select_convs)
      done
  qed
qed


lemma lookup_prefix:
  assumes "take (length xs) ys = xs" and "lookup xs a = Some v"
  shows "lookup ys a = Some v"
proof -
  from assms(2) have a: "a < length xs" and v: "xs ! a = v"
    by (auto simp: lookup_def split: if_splits)
  have "length (take (length xs) ys) = length xs" by (simp only: assms(1))
  then have le: "length xs \<le> length ys" by simp
  have "take (length xs) ys ! a = ys ! a" using a by simp
  then have "ys ! a = v" using v by (simp only: assms(1))
  then show ?thesis using a le by (simp add: lookup_def)
qed

lemma board_at_prefix:
  assumes "take (length (board_objs hp)) (board_objs hp') = board_objs hp"
    and "take (length (list_objs hp)) (list_objs hp') = list_objs hp"
    and "board_at hp a = Some s"
  shows "board_at hp' a = Some s"
proof -
  from assms(3) obtain bo ps where bo: "lookup (board_objs hp) a = Some bo"
    and ps: "lookup (list_objs hp) (pits_ref bo) = Some ps"
    and s: "s = \<lparr>pits = ps, kazans = kazans_val bo, turn = turn_val bo\<rparr>"
    by (auto simp: board_at_def split: option.splits)
  have "lookup (board_objs hp') a = Some bo"
    using assms(1) bo by (rule lookup_prefix)
  moreover have "lookup (list_objs hp') (pits_ref bo) = Some ps"
    using assms(2) ps by (rule lookup_prefix)
  ultimately show ?thesis by (simp add: board_at_def s)
qed

lemma board_at_bound: "board_at hp a = Some s \<Longrightarrow> a < length (board_objs hp)"
  by (auto simp: board_at_def lookup_def split: option.splits if_splits)

text \<open>
  C10: for a board with 18 pits and a pit index in 0..17, \<open>apply_move\<close> returns a new
  board object whose turn is the old one with its lowest bit flipped (so the other side),
  whose pit \<open>pit_index\<close> is 0, and whose other pits and kazans are those of the original;
  the original board, and every other board of the store, reads as before.
\<close>

theorem apply_move_frame:
  "board_at hp self = Some s \<Longrightarrow> length (pits s) = 18 \<Longrightarrow> 0 \<le> i \<Longrightarrow> i \<le> 17 \<Longrightarrow>
     \<exists>hp' new s'.
        heap_apply_move hp self i = Some (hp', Inr new)
      \<and> new \<noteq> self
      \<and> board_at hp' new = Some s'
      \<and> apply_move s i = Inr s'
      \<and> turn s' = turn s XOR 1 \<and> turn s' \<noteq> turn s
      \<and> (turn s = 0 \<longrightarrow> turn s' = 1) \<and> (turn s = 1 \<longrightarrow> turn s' = 0)
      \<and> length (pits s') = 18
      \<and> pits s' ! nat i = 0
      \<and> (\<forall>j < 18. j \<noteq> nat i \<longrightarrow> pits s' ! j = pits s ! j)
      \<and> kazans s' = kazans s
      \<and> board_at hp' self = Some s
      \<and> (\<forall>a b. board_at hp a = Some b \<longrightarrow> board_at hp' a = Some b)"
proof -
  assume at: "board_at hp self = Some s" and len: "length (pits s) = 18"
    and lo: "0 \<le> i" and hi: "i \<le> 17"
  have idx: "py_index (length (pits s)) i = Some (nat i)"
    using len lo hi by (simp add: py_index_def)
  define s' where "s' = \<lparr>pits = (pits s)[nat i := 0], kazans = kazans s, turn = turn s XOR 1\<rparr>"
  have mv: "apply_move s i = Inr s'"
    unfolding apply_move_Inr s'_def using idx by simp
  from heap_apply_move_Some [OF at, of i] obtain hp' r where
    run: "heap_apply_move hp self i = Some (hp', r)"
    and res: "heap_result (Some (hp', r)) = Some (apply_move s i)"
    and pre_b: "take (length (board_objs hp)) (board_objs hp') = board_objs hp"
    and pre_l: "take (length (list_objs hp)) (list_objs hp') = list_objs hp"
    and fresh: "\<forall>a. r = Inr a \<longrightarrow> a = length (board_objs hp)"
    by blast
  from res mv obtain new where r: "r = Inr new" and new: "board_at hp' new = Some s'"
    by (cases r) (auto simp: heap_result_def)
  have "new = length (board_objs hp)" using fresh r by simp
  moreover have "self < length (board_objs hp)" using at by (rule board_at_bound)
  ultimately have ne: "new \<noteq> self" by simp
  have keep: "board_at hp' a = Some b" if "board_at hp a = Some b" for a b
    using pre_b pre_l that by (rule board_at_prefix)
  have nat_i: "nat i < 18" using lo hi by simp
  have pits': "pits s' ! nat i = 0" "length (pits s') = 18"
    "\<forall>j < 18. j \<noteq> nat i \<longrightarrow> pits s' ! j = pits s ! j"
    using len nat_i by (simp_all add: s'_def)
  have turn': "turn s' = turn s XOR 1" "turn s' \<noteq> turn s"
    "turn s = 0 \<longrightarrow> turn s' = 1" "turn s = 1 \<longrightarrow> turn s' = 0"
    by (simp_all add: s'_def xor_one_neq)
  have kz: "kazans s' = kazans s" by (simp add: s'_def)
  show ?thesis
    using run r ne new mv turn' pits' kz keep [OF at] keep by blast
qed

text \<open>
  C8: the board value that \<open>apply_move\<close> returns (or the exception it raises) is a
  function of the value of \<open>self\<close> and of \<open>pit_index\<close> alone: two calls on equal boards,
  in whatever stores and at whatever addresses, give equal results.
\<close>

theorem apply_move_deterministic:
  "board_at hp1 a1 = Some s \<Longrightarrow> board_at hp2 a2 = Some s \<Longrightarrow>
     heap_result (heap_apply_move hp1 a1 i) = heap_result (heap_apply_move hp2 a2 i)
     \<and> heap_result (heap_apply_move hp1 a1 i) = Some (apply_move s i)"
proof -
  assume at1: "board_at hp1 a1 = Some s" and at2: "board_at hp2 a2 = Some s"
  from heap_apply_move_Some [OF at1, of i]
  have "heap_result (heap_apply_move hp1 a1 i) = Some (apply_move s i)" by auto
  moreover from heap_apply_move_Some [OF at2, of i]
  have "heap_result (heap_apply_move hp2 a2 i) = Some (apply_move s i)" by auto
  ultimately show ?thesis by simp
qed


theorem apply_move_frame_witness:
  "board_at
      \<lparr>list_objs = [[9, 9, 9, 9, 9, 9, 9, 9, 9, 9, 9, 9, 9, 9, 9, 9, 9, 9]],
       board_objs = [\<lparr>pits_ref = 0, kazans_val = (0, 0), turn_val = 0\<rparr>]\<rparr> 0
     = Some \<lparr>pits = [9, 9, 9, 9, 9, 9, 9, 9, 9, 9, 9, 9, 9, 9, 9, 9, 9, 9], kazans = (0, 0), turn = 0\<rparr>
   \<and> length (pits \<lparr>pits = [9, 9, 9, 9, 9, 9, 9, 9, 9, 9, 9, 9, 9, 9, 9, 9, 9, 9], kazans = (0, 0), turn = 0\<rparr>) = 18
   \<and> heap_apply_move
      \<lparr>list_objs = [[9, 9, 9, 9, 9, 9, 9, 9, 9, 9, 9, 9, 9, 9, 9, 9, 9, 9]],
       board_objs = [\<lparr>pits_ref = 0, kazans_val = (0, 0), turn_val = 0\<rparr>]\<rparr> 0 3
     = Some (\<lparr>list_objs = [[9, 9, 9, 9, 9, 9, 9, 9, 9, 9, 9, 9, 9, 9, 9, 9, 9, 9],
                     [9, 9, 9, 0, 9, 9, 9, 9, 9, 9, 9, 9, 9, 9, 9, 9, 9, 9]],
       board_objs = [\<lparr>pits_ref = 0, kazans_val = (0, 0), turn_val = 0\<rparr>,
                     \<lparr>pits_ref = 1, kazans_val = (0, 0), turn_val = 1\<rparr>]\<rparr>, Inr 1)
   \<and> board_at
      \<lparr>list_objs = [[9, 9, 9, 9, 9, 9, 9, 9, 9, 9, 9, 9, 9, 9, 9, 9, 9, 9],
                     [9, 9, 9, 0, 9, 9, 9, 9, 9, 9, 9, 9, 9, 9, 9, 9, 9, 9]],
       board_objs = [\<lparr>pits_ref = 0, kazans_val = (0, 0), turn_val = 0\<rparr>,
                     \<lparr>pits_ref = 1, kazans_val = (0, 0), turn_val = 1\<rparr>]\<rparr> 1
     = Some \<lparr>pits = [9, 9, 9, 0, 9, 9, 9, 9, 9, 9, 9, 9, 9, 9, 9, 9, 9, 9], kazans = (0, 0), turn = 1\<rparr>
   \<and> board_at
      \<lparr>list_objs = [[9, 9, 9, 9, 9, 9, 9, 9, 9, 9, 9, 9, 9, 9, 9, 9, 9, 9],
                     [9, 9, 9, 0, 9, 9, 9, 9, 9, 9, 9, 9, 9, 9, 9, 9, 9, 9]],
       board_objs = [\<lparr>pits_ref = 0, kazans_val = (0, 0), turn_val = 0\<rparr>,
                     \<lparr>pits_ref = 1, kazans_val = (0, 0), turn_val = 1\<rparr>]\<rparr> 0
     = Some \<lparr>pits = [9, 9, 9, 9, 9, 9, 9, 9, 9, 9, 9, 9, 9, 9, 9, 9, 9, 9], kazans = (0, 0), turn = 0\<rparr>"
proof -
  let ?hp = "\<lparr>list_objs = [[9, 9, 9, 9, 9, 9, 9, 9, 9, 9, 9, 9, 9, 9, 9, 9, 9, 9]],
       board_objs = [\<lparr>pits_ref = 0, kazans_val = (0, 0), turn_val = 0\<rparr>]\<rparr>"
  let ?s = "\<lparr>pits = [9, 9, 9, 9, 9, 9, 9, 9, 9, 9, 9, 9, 9, 9, 9, 9, 9, 9], kazans = (0, 0), turn = 0\<rparr>"
  have at: "board_at ?hp 0 = Some ?s"
    by (simp add: board_at_def lookup_def)
  have len: "length (pits ?s) = 18"
    by simp
  have run: "heap_apply_move ?hp 0 3
     = Some (\<lparr>list_objs = [[9, 9, 9, 9, 9, 9, 9, 9, 9, 9, 9, 9, 9, 9, 9, 9, 9, 9],
                     [9, 9, 9, 0, 9, 9, 9, 9, 9, 9, 9, 9, 9, 9, 9, 9, 9, 9]],
       board_objs = [\<lparr>pits_ref = 0, kazans_val = (0, 0), turn_val = 0\<rparr>,
                     \<lparr>pits_ref = 1, kazans_val = (0, 0), turn_val = 1\<rparr>]\<rparr>, Inr 1)"
    by (simp add: heap_apply_move_def deepcopy_def lookup_def py_setitem_def py_index_def
        Let_def numeral_eq_Suc)
  from apply_move_frame [OF at len, of 3] run at len
  show ?thesis
    by (simp add: apply_move_def board_copy_def py_setitem_def py_index_def numeral_eq_Suc)
qed

theorem apply_move_deterministic_witness:
  "board_at
      \<lparr>list_objs = [[9, 9, 9, 9, 9, 9, 9, 9, 9, 9, 9, 9, 9, 9, 9, 9, 9, 9]],
       board_objs = [\<lparr>pits_ref = 0, kazans_val = (0, 0), turn_val = 0\<rparr>]\<rparr> 0
     = Some \<lparr>pits = [9, 9, 9, 9, 9, 9, 9, 9, 9, 9, 9, 9, 9, 9, 9, 9, 9, 9], kazans = (0, 0), turn = 0\<rparr>
   \<and> board_at
      \<lparr>list_objs = [[9, 9, 9, 9, 9, 9, 9, 9, 9, 9, 9, 9, 9, 9, 9, 9, 9, 9],
                     [0, 9, 9, 9, 9, 9, 9, 9, 9, 9, 9, 9, 9, 9, 9, 9, 9, 9]],
       board_objs = [\<lparr>pits_ref = 1, kazans_val = (0, 0), turn_val = 1\<rparr>,
                     \<lparr>pits_ref = 0, kazans_val = (0, 0), turn_val = 0\<rparr>]\<rparr> 1
     = Some \<lparr>pits = [9, 9, 9, 9, 9, 9, 9, 9, 9, 9, 9, 9, 9, 9, 9, 9, 9, 9], kazans = (0, 0), turn = 0\<rparr>
   \<and> heap_result (heap_apply_move
      \<lparr>list_objs = [[9, 9, 9, 9, 9, 9, 9, 9, 9, 9, 9, 9, 9, 9, 9, 9, 9, 9]],
       board_objs = [\<lparr>pits_ref = 0, kazans_val = (0, 0), turn_val = 0\<rparr>]\<rparr> 0 3)
     = heap_result (heap_apply_move
      \<lparr>list_objs = [[9, 9, 9, 9, 9, 9, 9, 9, 9, 9, 9, 9, 9, 9, 9, 9, 9, 9],
                     [0, 9, 9, 9, 9, 9, 9, 9, 9, 9, 9, 9, 9, 9, 9, 9, 9, 9]],
       board_objs = [\<lparr>pits_ref = 1, kazans_val = (0, 0), turn_val = 1\<rparr>,
                     \<lparr>pits_ref = 0, kazans_val = (0, 0), turn_val = 0\<rparr>]\<rparr> 1 3)
   \<and> heap_result (heap_apply_move
      \<lparr>list_objs = [[9, 9, 9, 9, 9, 9, 9, 9, 9, 9, 9, 9, 9, 9, 9, 9, 9, 9]],
       board_objs = [\<lparr>pits_ref = 0, kazans_val = (0, 0), turn_val = 0\<rparr>]\<rparr> 0 3)
     = Some (Inr \<lparr>pits = [9, 9, 9, 0, 9, 9, 9, 9, 9, 9, 9, 9, 9, 9, 9, 9, 9, 9], kazans = (0, 0), turn = 1\<rparr>)"
proof -
  have at1: "board_at
      \<lparr>list_objs = [[9, 9, 9, 9, 9, 9, 9, 9, 9, 9, 9, 9, 9, 9, 9, 9, 9, 9]],
       board_objs = [\<lparr>pits_ref = 0, kazans_val = (0, 0), turn_val = 0\<rparr>]\<rparr> 0
     = Some \<lparr>pits = [9, 9, 9, 9, 9, 9, 9, 9, 9, 9, 9, 9, 9, 9, 9, 9, 9, 9], kazans = (0, 0), turn = 0\<rparr>"
    by (simp add: board_at_def lookup_def)
  have at2: "board_at
      \<lparr>list_objs = [[9, 9, 9, 9, 9, 9, 9, 9, 9, 9, 9, 9, 9, 9, 9, 9, 9, 9],
                     [0, 9, 9, 9, 9, 9, 9, 9, 9, 9, 9, 9, 9, 9, 9, 9, 9, 9]],
       board_objs = [\<lparr>pits_ref = 1, kazans_val = (0, 0), turn_val = 1\<rparr>,
                     \<lparr>pits_ref = 0, kazans_val = (0, 0), turn_val = 0\<rparr>]\<rparr> 1
     = Some \<lparr>pits = [9, 9, 9, 9, 9, 9, 9, 9, 9, 9, 9, 9, 9, 9, 9, 9, 9, 9], kazans = (0, 0), turn = 0\<rparr>"
    by (simp add: board_at_def lookup_def)
  have mv: "apply_move \<lparr>pits = [9, 9, 9, 9, 9, 9, 9, 9, 9, 9, 9, 9, 9, 9, 9, 9, 9, 9], kazans = (0, 0), turn = 0\<rparr> 3
     = Inr \<lparr>pits = [9, 9, 9, 0, 9, 9, 9, 9, 9, 9, 9, 9, 9, 9, 9, 9, 9, 9], kazans = (0, 0), turn = 1\<rparr>"
    by (simp add: apply_move_def board_copy_def py_setitem_def py_index_def numeral_eq_Suc)
  from apply_move_deterministic [OF at1 at2, of 3] at1 at2
  show ?thesis
    unfolding mv by blast
qed

section \<open>Geometry of the pits\<close>
























text \<open>
  In a low and wide viewport the pits of the two rows overlap as well: for 1800 by 100 the
  radius is 22.5 and the point (22, 50) lies inside pit 0 and inside pit 17.
\<close>

lemma rows_overlap_example:
  "in_pit (pit_r 1800 100) (pit_centre 1800 100 0) 22 50
   \<and> in_pit (pit_r 1800 100) (pit_centre 1800 100 17) 22 50
   \<and> screen_to_pit 1800 100 22 50 = Some 0"
  by (simp add: screen_to_pit_def pit_centre_def pit_r_def in_pit_def bottom_centre_def
      top_centre_def upto_rec1 power2_eq_square)



end
